theory Spec2Isabelle
  imports Main "HOL-Library.Sublist"
begin

section \<open>Fuel's module-level configuration (src/fuel/config_parser.py)\<close>

text \<open>
  The module keeps a table of settings in the attribute \<open>config\<close> of one
  \<open>Configuration\<close> object. Each setting is a dictionary with the keys \<open>type\<close>
  (always), \<open>env_var\<close>, \<open>default\<close>, \<open>yaml\<close> and \<open>value\<close> (each optional). Reading a
  setting is the attribute read \<open>config.key\<close> (\<open>read\<close> below), which falls back to
  \<open>__getattr__\<close> (\<open>getattr\<close>) when the object and its class have no attribute of
  that name; assigning goes through \<open>__setattr__\<close> (\<open>setattr\<close>). \<open>_human_bool\<close> is
  \<open>human_bool\<close>.

  Python is untyped; the model fixes a universe of first-order values (\<open>None\<close>,
  booleans, integers, strings, lists). Dictionaries and floats as setting values are
  outside the model. Strings are Python 3 \<open>str\<close>.
\<close>

subsection \<open>Values and exceptions\<close>

datatype pyval = PNone | PBool bool | PInt int | PStr string | PList "pyval list"

text \<open>
  The exceptions the module raises or lets through. \<open>ValueError\<close> and
  \<open>ConfigurationError\<close> carry their message.
\<close>

datatype error =
    AttributeError
  | TypeError
  | KeyError
  | ImportError
  | ValueError string
  | ConfigurationError string

text \<open>Python's \<open>bool(value)\<close> on the values of the model.\<close>

fun truthy :: "pyval \<Rightarrow> bool" where
  "truthy PNone = False"
| "truthy (PBool b) = b"
| "truthy (PInt i) = (i \<noteq> 0)"
| "truthy (PStr s) = (s \<noteq> [])"
| "truthy (PList xs) = (xs \<noteq> [])"

text \<open>\<open>isinstance(value, six.string_types)\<close> and \<open>isinstance(value, str)\<close>.\<close>

fun is_string :: "pyval \<Rightarrow> bool" where
  "is_string (PStr s) = True"
| "is_string v = False"

subsection \<open>String splitting\<close>

text \<open>
  \<open>s.split(sep)\<close> for a separator of one character, which is what both
  \<open>os.path.pathsep\<close> (\<open>:\<close> or \<open>;\<close>) and \<open>" "\<close> are: the pieces between the
  separators, in order, empty pieces kept; the empty string gives one empty piece.
\<close>

fun str_split :: "char \<Rightarrow> string \<Rightarrow> string list" where
  "str_split sep [] = [[]]"
| "str_split sep (c # cs) =
     (if c = sep then [] # str_split sep cs
      else (c # hd (str_split sep cs)) # tl (str_split sep cs))"

text \<open>
  The inverse the specification of a split refers to, \<open>sep.join(pieces)\<close>. It is not
  part of the module; it is used only to state what \<open>str_split\<close> computes.
\<close>

fun str_join :: "char \<Rightarrow> string list \<Rightarrow> string" where
  "str_join sep [] = []"
| "str_join sep [p] = p"
| "str_join sep (p # q # ps) = p @ sep # str_join sep (q # ps)"

subsection \<open>The coercion functions\<close>

text \<open>\<open>extra_downloader_converter(value)\<close>, lines 94-106.\<close>

definition extra_downloader_converter :: "pyval \<Rightarrow> pyval" where
  "extra_downloader_converter v =
     (case v of PStr s \<Rightarrow> PList (map PStr (str_split CHR '' '' s)) | _ \<Rightarrow> v)"

text \<open>
  \<open>multiple_paths_parser(value)\<close>, lines 109-125. \<open>os.path.pathsep\<close> is a constant of
  the platform and a parameter here.
\<close>

definition multiple_paths_parser :: "char \<Rightarrow> pyval \<Rightarrow> pyval" where
  "multiple_paths_parser pathsep v =
     (case v of PStr s \<Rightarrow> PList (map PStr (str_split pathsep s)) | _ \<Rightarrow> v)"

text \<open>\<open>_human_bool(value, default)\<close>, lines 200-228.\<close>

definition human_bool_message :: string where
  "human_bool_message = ''string will not be interpreted as bool use 'True'/'False' instead''"

definition human_bool :: "pyval \<Rightarrow> pyval \<Rightarrow> error + pyval" where
  "human_bool v dflt =
     (case v of
        PStr s \<Rightarrow>
          (if length s = 0 then Inr dflt
           else if s = ''1'' \<or> s = ''True'' \<or> s = ''true'' then Inr (PBool True)
           else if s = ''0'' \<or> s = ''False'' \<or> s = ''false'' then Inr (PBool False)
           else Inl (ValueError human_bool_message))
      | _ \<Rightarrow> Inr (PBool (truthy v)))"

subsection \<open>Settings and the Configuration object\<close>

text \<open>
  A coercion (the \<open>type\<close> entry of a setting) takes a raw value and returns the typed
  one, or raises.
\<close>

type_synonym coercion = "pyval \<Rightarrow> error + pyval"

text \<open>
  One setting: the dictionary \<open>self.config[key]\<close>. A field that is \<open>None\<close> is a key
  the dictionary does not have. \<open>cfg_type\<close> is the key \<open>type\<close>, \<open>cfg_env_var\<close> is
  \<open>env_var\<close>, \<open>cfg_default\<close> is \<open>default\<close>, \<open>cfg_yaml\<close> is \<open>yaml\<close> and \<open>cfg_value\<close>
  is \<open>value\<close>.
\<close>

record setting =
  cfg_type :: coercion
  cfg_env_var :: "string option"
  cfg_default :: "pyval option"
  cfg_yaml :: "pyval option"
  cfg_value :: "pyval option"

text \<open>
  What the attribute \<open>config\<close> of the object holds: the dictionary of settings
  \<open>__init__\<close> and \<open>add_config\<close> build, or a plain value, since \<open>__setattr__\<close>
  hands an assignment to the name \<open>config\<close> to \<open>object.__setattr__\<close>
  whatever the value is.
\<close>

datatype config_attr = Registry "string \<Rightarrow> setting option" | Plain pyval

text \<open>
  The object: its attribute \<open>config\<close>, and the other entries of its instance
  dictionary, which \<open>object.__setattr__\<close> writes.
\<close>

record configuration =
  config :: config_attr
  attrs :: "string \<Rightarrow> pyval option"

text \<open>\<open>Configuration.__init__\<close>, lines 129-130: \<open>self.config = {}\<close>.\<close>

definition init :: configuration where
  "init = \<lparr>config = Registry Map.empty, attrs = Map.empty\<rparr>"

text \<open>
  \<open>key in self.config\<close>. On a dictionary it is membership of the key; on a string
  Python tests for a substring, on a list for an equal element, and on \<open>None\<close>, a
  boolean or an integer it raises \<open>TypeError\<close>.
\<close>

fun contains :: "config_attr \<Rightarrow> string \<Rightarrow> error + bool" where
  "contains (Registry r) key = Inr (r key \<noteq> None)"
| "contains (Plain (PStr s)) key = Inr (sublist key s)"
| "contains (Plain (PList xs)) key = Inr (PStr key \<in> set xs)"
| "contains (Plain v) key = Inl TypeError"

text \<open>
  \<open>self.config[key]\<close>: the setting, \<open>KeyError\<close> when the dictionary has no such key,
  \<open>TypeError\<close> when \<open>self.config\<close> is a plain value (none of them can be indexed
  by a string).
\<close>

fun getitem :: "config_attr \<Rightarrow> string \<Rightarrow> error + setting" where
  "getitem (Registry r) key = (case r key of None \<Rightarrow> Inl KeyError | Some s \<Rightarrow> Inr s)"
| "getitem (Plain v) key = Inl TypeError"

text \<open>
  \<open>self.config[key][field] = x\<close>: the setting is looked up as in \<open>getitem\<close> and
  changed in place; \<open>f\<close> is the change of that one field.
\<close>

fun update_setting :: "config_attr \<Rightarrow> string \<Rightarrow> (setting \<Rightarrow> setting) \<Rightarrow> error + config_attr" where
  "update_setting (Registry r) key f =
     (case r key of None \<Rightarrow> Inl KeyError | Some s \<Rightarrow> Inr (Registry (r(key \<mapsto> f s))))"
| "update_setting (Plain v) key f = Inl TypeError"

text \<open>
  \<open>Configuration.add_config(key, type_, default=NOT_SET, env_var=None)\<close>, lines
  169-197. \<open>dflt = None\<close> is the sentinel \<open>NOT_SET\<close>. The setting is a new
  dictionary: registering a name again drops its \<open>yaml\<close> and \<open>value\<close> entries.
  Assigning an item of a plain value raises \<open>TypeError\<close>.
\<close>

definition add_config ::
  "configuration \<Rightarrow> string \<Rightarrow> coercion \<Rightarrow> pyval option \<Rightarrow> string option \<Rightarrow> error + configuration" where
  "add_config c key type_fn dflt env_var =
     (case config c of
        Registry r \<Rightarrow>
          Inr (c\<lparr>config := Registry (r(key \<mapsto>
            \<lparr>cfg_type = type_fn, cfg_env_var = env_var, cfg_default = dflt,
             cfg_yaml = None, cfg_value = None\<rparr>))\<rparr>)
      | Plain v \<Rightarrow> Inl TypeError)"

text \<open>
  \<open>Configuration.__getattr__(key)\<close>, lines 145-161, which Python calls for
  \<open>config.key\<close> when the ordinary lookup finds no attribute of that name.
  \<open>environ\<close> is \<open>os.environ\<close>. The chain of \<open>if\<close>/\<open>elif\<close> picks the raw value;
  the last line applies the setting's \<open>type\<close> to it.
\<close>

definition not_set_message :: "string \<Rightarrow> string" where
  "not_set_message key = ''Configuration not set and no default provided: '' @ key @ ''.''"

definition getattr :: "(string \<Rightarrow> string option) \<Rightarrow> configuration \<Rightarrow> string \<Rightarrow> error + pyval" where
  "getattr environ c key =
     (if key = ''config'' then Inl AttributeError
      else case contains (config c) key of
        Inl e \<Rightarrow> Inl e
      | Inr False \<Rightarrow> Inl AttributeError
      | Inr True \<Rightarrow>
          (case getitem (config c) key of
             Inl e \<Rightarrow> Inl e
           | Inr config_setting \<Rightarrow>
               (case cfg_value config_setting of
                  Some v \<Rightarrow> cfg_type config_setting v
                | None \<Rightarrow>
                    (case (case cfg_env_var config_setting of
                             None \<Rightarrow> None | Some name \<Rightarrow> environ name) of
                       Some e \<Rightarrow> cfg_type config_setting (PStr e)
                     | None \<Rightarrow>
                         (case cfg_yaml config_setting of
                            Some v \<Rightarrow> cfg_type config_setting v
                          | None \<Rightarrow>
                              (case cfg_default config_setting of
                                 Some v \<Rightarrow> cfg_type config_setting v
                               | None \<Rightarrow> Inl (ConfigurationError (not_set_message key))))))))"

text \<open>
  \<open>object.__setattr__(key, value)\<close>, which \<open>super(Configuration, self).__setattr__\<close>
  resolves to. The name \<open>config\<close> is the attribute that holds the settings. The
  runtime keeps three names to itself: \<open>__class__\<close> and \<open>__dict__\<close> take a class
  and a dictionary only (\<open>TypeError\<close> for every value of the model), and
  \<open>__weakref__\<close> cannot be written (\<open>AttributeError\<close>). Every other name is
  stored in the instance dictionary.
\<close>

definition object_setattr :: "configuration \<Rightarrow> string \<Rightarrow> pyval \<Rightarrow> error + configuration" where
  "object_setattr c key v =
     (if key = ''__class__'' \<or> key = ''__dict__'' then Inl TypeError
      else if key = ''__weakref__'' then Inl AttributeError
      else if key = ''config'' then Inr (c\<lparr>config := Plain v\<rparr>)
      else Inr (c\<lparr>attrs := (attrs c)(key \<mapsto> v)\<rparr>))"

text \<open>\<open>Configuration.__setattr__(key, value)\<close>, lines 163-167.\<close>

definition setattr :: "configuration \<Rightarrow> string \<Rightarrow> pyval \<Rightarrow> error + configuration" where
  "setattr c key v =
     (if key = ''config'' then object_setattr c key v
      else case contains (config c) key of
        Inl e \<Rightarrow> Inl e
      | Inr True \<Rightarrow>
          (case update_setting (config c) key (\<lambda>s. s\<lparr>cfg_value := Some v\<rparr>) of
             Inl e \<Rightarrow> Inl e
           | Inr cfg \<Rightarrow> Inr (c\<lparr>config := cfg\<rparr>))
      | Inr False \<Rightarrow> object_setattr c key v)"

subsection \<open>Reading an attribute\<close>

text \<open>
  \<open>config.key\<close> is an attribute read, and Python calls \<open>__getattr__\<close> only when
  the ordinary lookup finds nothing. The lookup finds, in this order: the three names
  the runtime serves itself on every object; the entries of the instance dictionary,
  which are \<open>config\<close> and whatever \<open>object.__setattr__\<close> has stored; and the
  attributes of the class, which are the five methods the class body defines and the
  attributes every class inherits from \<open>object\<close> (listed for CPython 3.11; older
  versions have no \<open>__getstate__\<close>).
\<close>

definition runtime_reserved :: "string list" where
  "runtime_reserved = [''__class__'', ''__dict__'', ''__weakref__'']"

definition class_attribute_names :: "string list" where
  "class_attribute_names =
     [''__init__'', ''load_yaml'', ''__getattr__'', ''__setattr__'', ''add_config'',
      ''__delattr__'', ''__dir__'', ''__doc__'', ''__eq__'', ''__format__'', ''__ge__'',
      ''__getattribute__'', ''__getstate__'', ''__gt__'', ''__hash__'',
      ''__init_subclass__'', ''__le__'', ''__lt__'', ''__module__'', ''__ne__'', ''__new__'',
      ''__reduce__'', ''__reduce_ex__'', ''__repr__'', ''__sizeof__'', ''__str__'',
      ''__subclasshook__'']"

text \<open>
  What a read gives: a plain value, the dictionary of settings (when the name is
  \<open>config\<close>), or what the class or the runtime provides under the name (a bound
  method, the class, the instance dictionary, ...).
\<close>

datatype attribute = Value pyval | Settings "string \<Rightarrow> setting option" | Provided string

text \<open>The ordinary lookup finds the name, so \<open>__getattr__\<close> is not called.\<close>

definition shadowed :: "configuration \<Rightarrow> string \<Rightarrow> bool" where
  "shadowed c key =
     (key \<in> set runtime_reserved \<or> key = ''config'' \<or> attrs c key \<noteq> None
      \<or> key \<in> set class_attribute_names)"

text \<open>The result of \<open>__getattr__\<close> as the result of the read.\<close>

definition as_attribute :: "error + pyval \<Rightarrow> error + attribute" where
  "as_attribute res = (case res of Inl e \<Rightarrow> Inl e | Inr v \<Rightarrow> Inr (Value v))"

text \<open>The read \<open>config.key\<close>.\<close>

definition read :: "(string \<Rightarrow> string option) \<Rightarrow> configuration \<Rightarrow> string \<Rightarrow> error + attribute" where
  "read environ c key =
     (if key \<in> set runtime_reserved then Inr (Provided key)
      else if key = ''config'' then
        Inr (case config c of Registry r \<Rightarrow> Settings r | Plain v \<Rightarrow> Value v)
      else case attrs c key of
        Some v \<Rightarrow> Inr (Value v)
      | None \<Rightarrow>
          if key \<in> set class_attribute_names then Inr (Provided key)
          else as_attribute (getattr environ c key))"

subsection \<open>Loading the YAML file\<close>

text \<open>
  What \<open>yaml.safe_load(f)\<close> returns: a mapping, whose items are listed in the order
  \<open>items()\<close> yields them, or a value that is not a mapping (an empty file gives
  \<open>None\<close>), on which \<open>.items()\<close> raises \<open>AttributeError\<close>. Keys are strings.
\<close>

datatype yaml_doc = YMapping "(string \<times> pyval) list" | YOther pyval

definition unrecognized_message :: "string \<Rightarrow> string" where
  "unrecognized_message key = ''Unrecognized config in YAML: '' @ key"

text \<open>
  The loop of \<open>load_yaml\<close>, lines 139-143. An exception leaves the object as the
  loop had changed it so far, so the result is the object after the call together
  with the exception raised, if any.
\<close>

fun load_items :: "configuration \<Rightarrow> (string \<times> pyval) list \<Rightarrow> configuration \<times> error option" where
  "load_items c [] = (c, None)"
| "load_items c ((key, v) # rest) =
     (case contains (config c) key of
        Inl e \<Rightarrow> (c, Some e)
      | Inr False \<Rightarrow> (c, Some (ValueError (unrecognized_message key)))
      | Inr True \<Rightarrow>
          (case update_setting (config c) key (\<lambda>s. s\<lparr>cfg_yaml := Some v\<rparr>) of
             Inl e \<Rightarrow> (c, Some e)
           | Inr cfg \<Rightarrow> load_items (c\<lparr>config := cfg\<rparr>) rest))"

text \<open>
  \<open>Configuration.load_yaml()\<close>, lines 132-143. The path read is the value of
  \<open>FUEL_CONFIG\<close> if the environment has it, else \<open>fuelrc\<close>, which is
  \<open>os.path.expanduser('~/.fuelrc')\<close>. \<open>files\<close> maps the path of every regular
  file to its parsed content, so \<open>os.path.isfile\<close> is membership of its domain.
\<close>

definition yaml_file :: "(string \<Rightarrow> string option) \<Rightarrow> string \<Rightarrow> string" where
  "yaml_file environ fuelrc = (case environ ''FUEL_CONFIG'' of Some p \<Rightarrow> p | None \<Rightarrow> fuelrc)"

definition load_yaml ::
  "(string \<Rightarrow> string option) \<Rightarrow> string \<Rightarrow> (string \<Rightarrow> yaml_doc option) \<Rightarrow> configuration
     \<Rightarrow> configuration \<times> error option" where
  "load_yaml environ fuelrc files c =
     (case files (yaml_file environ fuelrc) of
        None \<Rightarrow> (c, None)
      | Some (YMapping items) \<Rightarrow> load_items c items
      | Some (YOther v) \<Rightarrow> (c, Some AttributeError))"

subsection \<open>The module's own configuration\<close>

text \<open>
  What the module reads from outside when it is imported: the environment, the home
  directory's \<open>.fuelrc\<close> path, the files, the platform's path separator, Python's
  built-in \<open>str\<close> and \<open>int\<close> (the \<open>type\<close> of two settings), and
  \<open>theano.config.floatX\<close> (\<open>None\<close> when \<open>theano\<close> cannot be imported).
\<close>

record world =
  os_environ :: "string \<Rightarrow> string option"
  home_fuelrc :: string
  os_files :: "string \<Rightarrow> yaml_doc option"
  os_pathsep :: char
  builtin_str :: coercion
  builtin_int :: coercion
  theano_floatX :: "string option"

text \<open>Running one statement after another: the first exception ends the run.\<close>

definition seq :: "error + 'a \<Rightarrow> ('a \<Rightarrow> error + 'b) \<Rightarrow> error + 'b" where
  "seq m f = (case m of Inl e \<Rightarrow> Inl e | Inr x \<Rightarrow> f x)"

text \<open>Lines 231-246: the object and its six settings.\<close>

definition registered :: "world \<Rightarrow> error + configuration" where
  "registered w =
     seq (add_config init ''data_path''
            (\<lambda>v. Inr (multiple_paths_parser (os_pathsep w) v)) None (Some ''FUEL_DATA_PATH'')) (\<lambda>c.
     seq (add_config c ''default_seed'' (builtin_int w) (Some (PInt 1)) None) (\<lambda>c.
     seq (add_config c ''extra_downloaders''
            (\<lambda>v. Inr (extra_downloader_converter v)) (Some (PList [])) (Some ''FUEL_EXTRA_DOWNLOADERS'')) (\<lambda>c.
     seq (add_config c ''extra_converters''
            (\<lambda>v. Inr (extra_downloader_converter v)) (Some (PList [])) (Some ''FUEL_EXTRA_CONVERTERS'')) (\<lambda>c.
     seq (add_config c ''floatX'' (builtin_str w) (Some (PStr ''float64'')) (Some ''FUEL_FLOATX'')) (\<lambda>c.
     add_config c ''fuel_uses_theano'' (\<lambda>v. human_bool v (PBool True))
       (Some (PBool True)) (Some ''FUEL_USES_THEANO''))))))"

text \<open>Line 248: \<open>config.load_yaml()\<close>; an exception ends the import.\<close>

definition loaded :: "world \<Rightarrow> error + configuration" where
  "loaded w =
     seq (registered w) (\<lambda>c.
       case load_yaml (os_environ w) (home_fuelrc w) (os_files w) c of
         (c', Some e) \<Rightarrow> Inl e
       | (c', None) \<Rightarrow> Inr c')"

text \<open>
  Lines 252-255. \<open>config.fuel_uses_theano\<close> is no attribute of the object, so the
  read is \<open>__getattr__\<close>; \<open>config.config['floatX']['default'] = ...\<close> writes the
  setting's dictionary directly.
\<close>

definition module_init :: "world \<Rightarrow> error + configuration" where
  "module_init w =
     seq (loaded w) (\<lambda>c.
     seq (getattr (os_environ w) c ''fuel_uses_theano'') (\<lambda>flag.
       if truthy flag then
         (case theano_floatX w of
            None \<Rightarrow> Inl ImportError
          | Some fx \<Rightarrow>
              seq (update_setting (config c) ''floatX'' (\<lambda>s. s\<lparr>cfg_default := Some (PStr fx)\<rparr>))
                (\<lambda>cfg. Inr (c\<lparr>config := cfg\<rparr>)))
       else Inr c))"

subsection \<open>Observations of the object\<close>

text \<open>
  The names registered, the entries of one setting, and the value the environment
  holds for a setting (none when the setting has no \<open>env_var\<close> or the variable is
  not in the environment), read off the object.
\<close>

definition registered_names :: "configuration \<Rightarrow> string set" where
  "registered_names c = (case config c of Registry r \<Rightarrow> dom r | Plain v \<Rightarrow> {})"

definition setting_of :: "configuration \<Rightarrow> string \<Rightarrow> setting option" where
  "setting_of c key = (case config c of Registry r \<Rightarrow> r key | Plain v \<Rightarrow> None)"

definition yaml_of :: "configuration \<Rightarrow> string \<Rightarrow> pyval option" where
  "yaml_of c key = (case setting_of c key of None \<Rightarrow> None | Some s \<Rightarrow> cfg_yaml s)"

definition env_value :: "(string \<Rightarrow> string option) \<Rightarrow> setting \<Rightarrow> string option" where
  "env_value environ s = (case cfg_env_var s of None \<Rightarrow> None | Some name \<Rightarrow> environ name)"

text \<open>
  For a mapping with a key that is not registered: the items in front of the first
  such key, and that key.
\<close>

definition applied_items :: "(string \<Rightarrow> setting option) \<Rightarrow> (string \<times> pyval) list \<Rightarrow> (string \<times> pyval) list" where
  "applied_items r items = takeWhile (\<lambda>kv. r (fst kv) \<noteq> None) items"

definition first_unregistered :: "(string \<Rightarrow> setting option) \<Rightarrow> (string \<times> pyval) list \<Rightarrow> string" where
  "first_unregistered r items = fst (hd (dropWhile (\<lambda>kv. r (fst kv) \<noteq> None) items))"

subsection \<open>The specification's resolution order\<close>

text \<open>
  The specification's \<open>get\<close>, written from its words to compare \<open>getattr\<close> with:
  the four sources of a setting in the order explicit override, environment
  variable, YAML overlay, default; the first one present wins; its raw value is
  coerced; none present is the configuration-not-set error naming the setting.
\<close>

definition spec_sources :: "(string \<Rightarrow> string option) \<Rightarrow> setting \<Rightarrow> pyval option list" where
  "spec_sources environ s =
     [cfg_value s, map_option PStr (env_value environ s), cfg_yaml s, cfg_default s]"

fun spec_first_match :: "'a option list \<Rightarrow> 'a option" where
  "spec_first_match [] = None"
| "spec_first_match (Some v # xs) = Some v"
| "spec_first_match (None # xs) = spec_first_match xs"

definition spec_get :: "(string \<Rightarrow> string option) \<Rightarrow> string \<Rightarrow> setting \<Rightarrow> error + pyval" where
  "spec_get environ key s =
     (case spec_first_match (spec_sources environ s) of
        Some raw \<Rightarrow> cfg_type s raw
      | None \<Rightarrow> Inl (ConfigurationError (not_set_message key)))"

subsection \<open>Example objects\<close>

text \<open>
  Concrete settings, objects, environments and files on which the theorems below are
  run. \<open>keep\<close> is a coercion that returns its argument.
\<close>

definition keep :: coercion where
  "keep v = Inr v"

definition flag_setting :: setting where
  "flag_setting =
     \<lparr>cfg_type = (\<lambda>v. human_bool v (PBool True)), cfg_env_var = Some ''FUEL_USES_THEANO'',
      cfg_default = Some (PBool True), cfg_yaml = Some (PStr ''true''), cfg_value = None\<rparr>"

definition flag_object :: configuration where
  "flag_object = \<lparr>config = Registry [''fuel_uses_theano'' \<mapsto> flag_setting], attrs = Map.empty\<rparr>"

definition flag_environ :: "string \<Rightarrow> string option" where
  "flag_environ = [''FUEL_USES_THEANO'' \<mapsto> ''0'']"

definition bare_setting :: setting where
  "bare_setting =
     \<lparr>cfg_type = keep, cfg_env_var = None, cfg_default = None, cfg_yaml = None, cfg_value = None\<rparr>"

definition seed_setting :: setting where
  "seed_setting = bare_setting\<lparr>cfg_default := Some (PInt 1)\<rparr>"

definition seed_object :: configuration where
  "seed_object = \<lparr>config = Registry [''default_seed'' \<mapsto> seed_setting], attrs = Map.empty\<rparr>"

definition reserved_object :: configuration where
  "reserved_object = \<lparr>config = Registry [''config'' \<mapsto> seed_setting], attrs = Map.empty\<rparr>"

definition reserved_bare_object :: configuration where
  "reserved_bare_object = \<lparr>config = Registry [''config'' \<mapsto> bare_setting], attrs = Map.empty\<rparr>"

definition path_object :: configuration where
  "path_object = \<lparr>config = Registry [''data_path'' \<mapsto> bare_setting], attrs = Map.empty\<rparr>"

definition method_object :: configuration where
  "method_object = \<lparr>config = Registry [''load_yaml'' \<mapsto> seed_setting], attrs = Map.empty\<rparr>"

definition method_bare_object :: configuration where
  "method_bare_object = \<lparr>config = Registry [''add_config'' \<mapsto> bare_setting], attrs = Map.empty\<rparr>"

definition assigned_object :: configuration where
  "assigned_object = \<lparr>config = Registry Map.empty, attrs = [''batch_size'' \<mapsto> PInt 5]\<rparr>"

definition assigned_seed_object :: configuration where
  "assigned_seed_object =
     \<lparr>config = Registry [''batch_size'' \<mapsto> seed_setting], attrs = [''batch_size'' \<mapsto> PInt 5]\<rparr>"

definition assigned_bare_object :: configuration where
  "assigned_bare_object =
     \<lparr>config = Registry [''batch_size'' \<mapsto> bare_setting], attrs = [''batch_size'' \<mapsto> PInt 5]\<rparr>"

definition reserved_flag_object :: configuration where
  "reserved_flag_object = \<lparr>config = Registry [''config'' \<mapsto> flag_setting], attrs = Map.empty\<rparr>"



definition fuelrc_path :: string where
  "fuelrc_path = ''/home/user/.fuelrc''"

definition typo_files :: "string \<Rightarrow> yaml_doc option" where
  "typo_files =
     [fuelrc_path \<mapsto> YMapping [(''default_seed'', PInt 5), (''data_pth'', PStr ''/data'')]]"

definition seed_files :: "int \<Rightarrow> string \<Rightarrow> yaml_doc option" where
  "seed_files n = [fuelrc_path \<mapsto> YMapping [(''default_seed'', PInt n)]]"

text \<open>
  A world for the examples. \<open>example_str\<close> and \<open>example_int\<close> stand for Python's
  \<open>str\<close> and \<open>int\<close>; they agree with them on the values the examples pass
  (\<open>str\<close> on strings, \<open>int\<close> on integers and booleans).
\<close>

definition example_str :: coercion where
  "example_str v = (case v of PStr s \<Rightarrow> Inr (PStr s) | _ \<Rightarrow> Inl TypeError)"

definition example_int :: coercion where
  "example_int v =
     (case v of PInt i \<Rightarrow> Inr (PInt i) | PBool b \<Rightarrow> Inr (PInt (if b then 1 else 0))
      | _ \<Rightarrow> Inl TypeError)"

definition example_world :: world where
  "example_world =
     \<lparr>os_environ = Map.empty, home_fuelrc = fuelrc_path, os_files = Map.empty,
      os_pathsep = CHR '':'', builtin_str = example_str, builtin_int = example_int,
      theano_floatX = Some ''float32''\<rparr>"

definition float16_world :: world where
  "float16_world =
     example_world\<lparr>os_files := [fuelrc_path \<mapsto> YMapping [(''floatX'', PStr ''float16'')]]\<rparr>"

section \<open>Verification\<close>

subsection \<open>The coercion functions\<close>

lemma str_split_nonempty: "str_split sep s \<noteq> []"
  by (induction s) auto

lemma str_join_cons:
  assumes "ps \<noteq> []"
  shows "str_join sep ((c # hd ps) # tl ps) = c # str_join sep ps"
proof (cases ps)
  case Nil
  then show ?thesis using assms by simp
next
  case (Cons p qs)
  then show ?thesis by (cases qs) auto
qed

lemma str_join_nil_cons:
  "ps \<noteq> [] \<Longrightarrow> str_join sep ([] # ps) = sep # str_join sep ps"
  by (cases ps) auto

lemma str_join_split: "str_join sep (str_split sep s) = s"
  by (induction s) (simp_all add: str_join_cons str_join_nil_cons str_split_nonempty)

lemma str_split_no_sep: "p \<in> set (str_split sep s) \<Longrightarrow> sep \<notin> set p"
proof (induction s arbitrary: p)
  case Nil
  then show ?case by simp
next
  case (Cons c cs)
  have ne: "str_split sep cs \<noteq> []" by (rule str_split_nonempty)
  show ?case
  proof (cases "c = sep")
    case True
    with Cons show ?thesis by auto
  next
    case False
    with Cons.prems have "p = c # hd (str_split sep cs) \<or> p \<in> set (tl (str_split sep cs))"
      by simp
    then show ?thesis
    proof
      assume "p = c # hd (str_split sep cs)"
      moreover have "sep \<notin> set (hd (str_split sep cs))"
        using Cons.IH ne by simp
      ultimately show ?thesis using False by auto
    next
      assume "p \<in> set (tl (str_split sep cs))"
      then have "p \<in> set (str_split sep cs)" using ne by (meson list.set_sel(2))
      then show ?thesis by (rule Cons.IH)
    qed
  qed
qed

lemma str_split_length: "length (str_split sep s) = Suc (count_list s sep)"
  by (induction s) (auto simp: str_split_nonempty)

text \<open>
  Claim C7. The multi-path parser turns a string into the list of the pieces between
  the platform's path separators, in order: joining the pieces with the separator
  gives the string back, no piece holds a separator, and there is one piece more
  than there are separators. \<open>"/a:/b"\<close> gives \<open>["/a", "/b"]\<close> where the separator is
  a colon. A list, and any other value that is not a string, is returned unchanged.
  Applying the parser twice is applying it once.
\<close>

theorem C7_multiple_paths_parser:
  "multiple_paths_parser pathsep (PStr s) = PList (map PStr (str_split pathsep s))
   \<and> str_join pathsep (str_split pathsep s) = s
   \<and> (\<forall>p \<in> set (str_split pathsep s). pathsep \<notin> set p)
   \<and> length (str_split pathsep s) = Suc (count_list s pathsep)
   \<and> multiple_paths_parser CHR '':'' (PStr ''/a:/b'') = PList [PStr ''/a'', PStr ''/b'']
   \<and> multiple_paths_parser pathsep (PList xs) = PList xs
   \<and> (\<not> is_string v \<longrightarrow> multiple_paths_parser pathsep v = v)
   \<and> multiple_paths_parser pathsep (multiple_paths_parser pathsep v)
       = multiple_paths_parser pathsep v"
proof -
  have idem: "multiple_paths_parser pathsep (multiple_paths_parser pathsep v)
       = multiple_paths_parser pathsep v"
    by (cases v) (simp_all add: multiple_paths_parser_def)
  have pass: "\<not> is_string v \<longrightarrow> multiple_paths_parser pathsep v = v"
    by (cases v) (simp_all add: multiple_paths_parser_def)
  have ex: "multiple_paths_parser CHR '':'' (PStr ''/a:/b'') = PList [PStr ''/a'', PStr ''/b'']"
    by (simp add: multiple_paths_parser_def)
  show ?thesis
    using idem pass ex
    by (simp add: multiple_paths_parser_def str_join_split str_split_no_sep str_split_length)
qed

theorem C7_multiple_paths_parser_witness:
  "multiple_paths_parser CHR '';'' (PStr ''C:/a;D:/b;'') = PList [PStr ''C:/a'', PStr ''D:/b'', PStr '''']
   \<and> CHR '';'' \<notin> set ''C:/a''
   \<and> \<not> is_string (PInt 3) \<and> multiple_paths_parser CHR '';'' (PInt 3) = PInt 3"
  using C7_multiple_paths_parser [of "CHR '';''" "''C:/a;D:/b;''" "[]" "PInt 3"]
  by simp

text \<open>
  Claim C6. The semantic boolean parser returns a boolean as it is; \<open>"1"\<close>, \<open>"True"\<close>
  and \<open>"true"\<close> give true; \<open>"0"\<close>, \<open>"False"\<close> and \<open>"false"\<close> give false; the empty
  string gives the default supplied; every other string raises a value error; every
  value that is not a string is coerced by Python's truthiness.
\<close>

theorem C6_human_bool:
  "human_bool (PBool b) dflt = Inr (PBool b)
   \<and> human_bool (PStr ''1'') dflt = Inr (PBool True)
   \<and> human_bool (PStr ''True'') dflt = Inr (PBool True)
   \<and> human_bool (PStr ''true'') dflt = Inr (PBool True)
   \<and> human_bool (PStr ''0'') dflt = Inr (PBool False)
   \<and> human_bool (PStr ''False'') dflt = Inr (PBool False)
   \<and> human_bool (PStr ''false'') dflt = Inr (PBool False)
   \<and> human_bool (PStr '''') dflt = Inr dflt
   \<and> (s \<notin> {'''', ''1'', ''True'', ''true'', ''0'', ''False'', ''false''}
        \<longrightarrow> human_bool (PStr s) dflt = Inl (ValueError human_bool_message))
   \<and> (\<not> is_string v \<longrightarrow> human_bool v dflt = Inr (PBool (truthy v)))"
proof -
  have other: "\<not> is_string v \<longrightarrow> human_bool v dflt = Inr (PBool (truthy v))"
    by (cases v) (simp_all add: human_bool_def)
  show ?thesis using other by (simp add: human_bool_def)
qed

theorem C6_human_bool_witness:
  "''yes'' \<notin> {'''', ''1'', ''True'', ''true'', ''0'', ''False'', ''false''}
   \<and> human_bool (PStr ''yes'') (PBool True) = Inl (ValueError human_bool_message)
   \<and> \<not> is_string (PList [])
   \<and> human_bool (PList []) (PBool True) = Inr (PBool False)
   \<and> human_bool (PInt 2) (PBool False) = Inr (PBool True)"
  using C6_human_bool [of True "PBool True" "''yes''" "PList []"]
        C6_human_bool [of True "PBool False" "''yes''" "PInt 2"]
  by simp

subsection \<open>Reading and assigning settings\<close>

lemma getattr_Registry:
  assumes "config c = Registry r" and "r key = Some s" and "key \<noteq> ''config''"
  shows "getattr environ c key =
     (case cfg_value s of
        Some v \<Rightarrow> cfg_type s v
      | None \<Rightarrow>
          (case env_value environ s of
             Some e \<Rightarrow> cfg_type s (PStr e)
           | None \<Rightarrow>
               (case cfg_yaml s of
                  Some v \<Rightarrow> cfg_type s v
                | None \<Rightarrow>
                    (case cfg_default s of
                       Some v \<Rightarrow> cfg_type s v
                     | None \<Rightarrow> Inl (ConfigurationError (not_set_message key))))))"
  using assms unfolding getattr_def env_value_def by simp


lemma getattr_config: "getattr environ c ''config'' = Inl AttributeError"
  by (simp add: getattr_def)

lemma setattr_registered:
  assumes "config c = Registry r" and "r key = Some s" and "key \<noteq> ''config''"
  shows "setattr c key v = Inr (c\<lparr>config := Registry (r(key \<mapsto> s\<lparr>cfg_value := Some v\<rparr>))\<rparr>)"
  using assms by (simp add: setattr_def)



lemma read_unshadowed:
  assumes "\<not> shadowed c key"
  shows "read environ c key = as_attribute (getattr environ c key)"
  using assms by (auto simp: read_def shadowed_def split: option.splits)


lemma unshadowed_not_config: "\<not> shadowed c key \<Longrightarrow> key \<noteq> ''config''"
  by (simp add: shadowed_def)

lemmas lookup_names = runtime_reserved_def class_attribute_names_def

text \<open>
  Claim C1, amended. For every registered setting whose name the ordinary lookup does
  not find (the name is not \<open>config\<close>, was not assigned before it was registered,
  and is no attribute of the class), the read is the specification's \<open>get\<close>: the
  explicit override if there is one, else the value of the environment variable if
  one was registered and is in the environment, else the YAML value, else the
  default, the first one present being coerced by the setting's \<open>type\<close>; with none
  present it is the configuration-not-set error. The setting and the environment are
  arbitrary, so all sixteen combinations of present and absent sources are covered.
\<close>

theorem C1_precedence:
  assumes "config c = Registry r" and "r key = Some s" and "\<not> shadowed c key"
  shows "read environ c key = as_attribute (spec_get environ key s)
    \<and> (cfg_value s = Some x \<longrightarrow> read environ c key = as_attribute (cfg_type s x))
    \<and> (cfg_value s = None \<and> env_value environ s = Some e
         \<longrightarrow> read environ c key = as_attribute (cfg_type s (PStr e)))
    \<and> (cfg_value s = None \<and> env_value environ s = None \<and> cfg_yaml s = Some y
         \<longrightarrow> read environ c key = as_attribute (cfg_type s y))
    \<and> (cfg_value s = None \<and> env_value environ s = None \<and> cfg_yaml s = None
           \<and> cfg_default s = Some d
         \<longrightarrow> read environ c key = as_attribute (cfg_type s d))
    \<and> (cfg_value s = None \<and> env_value environ s = None \<and> cfg_yaml s = None
           \<and> cfg_default s = None
         \<longrightarrow> read environ c key = Inl (ConfigurationError (not_set_message key)))"
proof -
  note k = unshadowed_not_config [OF assms(3)]
  note g = getattr_Registry [OF assms(1) assms(2) k, of environ]
  note rd = read_unshadowed [OF assms(3), of environ]
  have "read environ c key = as_attribute (spec_get environ key s)"
    unfolding rd g by (simp add: spec_get_def spec_sources_def split: option.splits)
  moreover have "cfg_value s = Some x \<longrightarrow> read environ c key = as_attribute (cfg_type s x)"
    unfolding rd g by simp
  moreover have "cfg_value s = None \<and> env_value environ s = Some e
         \<longrightarrow> read environ c key = as_attribute (cfg_type s (PStr e))"
    unfolding rd g by simp
  moreover have "cfg_value s = None \<and> env_value environ s = None \<and> cfg_yaml s = Some y
         \<longrightarrow> read environ c key = as_attribute (cfg_type s y)"
    unfolding rd g by simp
  moreover have "cfg_value s = None \<and> env_value environ s = None \<and> cfg_yaml s = None
           \<and> cfg_default s = Some d
         \<longrightarrow> read environ c key = as_attribute (cfg_type s d)"
    unfolding rd g by simp
  moreover have "cfg_value s = None \<and> env_value environ s = None \<and> cfg_yaml s = None
           \<and> cfg_default s = None
         \<longrightarrow> read environ c key = Inl (ConfigurationError (not_set_message key))"
    unfolding rd g by (simp add: as_attribute_def)
  ultimately show ?thesis by blast
qed

theorem C1_precedence_witness:
  "config flag_object = Registry [''fuel_uses_theano'' \<mapsto> flag_setting]
   \<and> \<not> shadowed flag_object ''fuel_uses_theano''
   \<and> cfg_value flag_setting = None
   \<and> env_value flag_environ flag_setting = Some ''0''
   \<and> cfg_yaml flag_setting = Some (PStr ''true'')
   \<and> read flag_environ flag_object ''fuel_uses_theano'' = Inr (Value (PBool False))
   \<and> env_value Map.empty flag_setting = None
   \<and> read Map.empty flag_object ''fuel_uses_theano'' = Inr (Value (PBool True))"
proof -
  have c: "config flag_object = Registry [''fuel_uses_theano'' \<mapsto> flag_setting]"
    by (simp add: flag_object_def)
  have r: "[''fuel_uses_theano'' \<mapsto> flag_setting] ''fuel_uses_theano'' = Some flag_setting"
    by simp
  have k: "\<not> shadowed flag_object ''fuel_uses_theano''"
    by (simp add: shadowed_def flag_object_def lookup_names)
  have v: "cfg_value flag_setting = None" by (simp add: flag_setting_def)
  have e: "env_value flag_environ flag_setting = Some ''0''"
    by (simp add: env_value_def flag_setting_def flag_environ_def)
  have e0: "env_value Map.empty flag_setting = None"
    by (simp add: env_value_def flag_setting_def)
  have y: "cfg_yaml flag_setting = Some (PStr ''true'')" by (simp add: flag_setting_def)
  have t0: "as_attribute (cfg_type flag_setting (PStr ''0'')) = Inr (Value (PBool False))"
    by (simp add: flag_setting_def human_bool_def as_attribute_def)
  have t1: "as_attribute (cfg_type flag_setting (PStr ''true'')) = Inr (Value (PBool True))"
    by (simp add: flag_setting_def human_bool_def as_attribute_def)
  from C1_precedence [OF c r k, of flag_environ _ "''0''"] v e
  have "read flag_environ flag_object ''fuel_uses_theano''
      = as_attribute (cfg_type flag_setting (PStr ''0''))"
    by blast
  with t0 have g1: "read flag_environ flag_object ''fuel_uses_theano'' = Inr (Value (PBool False))"
    by simp
  from C1_precedence [OF c r k, of Map.empty _ _ "PStr ''true''"] v e0 y
  have "read Map.empty flag_object ''fuel_uses_theano''
      = as_attribute (cfg_type flag_setting (PStr ''true''))"
    by blast
  with t1 have g2: "read Map.empty flag_object ''fuel_uses_theano'' = Inr (Value (PBool True))"
    by simp
  from c k v e y g1 e0 g2 show ?thesis by blast
qed

theorem C1_shadowed_name_counterexample:
  "add_config init ''config'' keep (Some (PInt 1)) None = Inr reserved_object
   \<and> setting_of reserved_object ''config'' = Some seed_setting
   \<and> as_attribute (spec_get Map.empty ''config'' seed_setting) = Inr (Value (PInt 1))
   \<and> read Map.empty reserved_object ''config'' = Inr (Settings [''config'' \<mapsto> seed_setting])
   \<and> add_config init ''load_yaml'' keep (Some (PInt 1)) None = Inr method_object
   \<and> setting_of method_object ''load_yaml'' = Some seed_setting
   \<and> read Map.empty method_object ''load_yaml'' = Inr (Provided ''load_yaml'')
   \<and> setattr init ''batch_size'' (PInt 5) = Inr assigned_object
   \<and> add_config assigned_object ''batch_size'' keep (Some (PInt 1)) None = Inr assigned_seed_object
   \<and> setting_of assigned_seed_object ''batch_size'' = Some seed_setting
   \<and> read Map.empty assigned_seed_object ''batch_size'' = Inr (Value (PInt 5))"
  by (simp add: add_config_def init_def reserved_object_def method_object_def assigned_object_def
      assigned_seed_object_def seed_setting_def bare_setting_def setting_of_def spec_get_def
      spec_sources_def env_value_def keep_def as_attribute_def read_def setattr_def
      object_setattr_def lookup_names)

lemma not_set_message_names_key: "sublist key (not_set_message key)"
  unfolding not_set_message_def sublist_def by blast

lemma add_config_Registry:
  assumes "config c = Registry r"
  shows "add_config c key type_fn dflt env_var =
     Inr (c\<lparr>config := Registry (r(key \<mapsto>
       \<lparr>cfg_type = type_fn, cfg_env_var = env_var, cfg_default = dflt,
        cfg_yaml = None, cfg_value = None\<rparr>))\<rparr>)"
  using assms by (simp add: add_config_def)

lemma add_config_shadowed:
  assumes "add_config c key type_fn dflt env_var = Inr c'"
  shows "shadowed c' k = shadowed c k"
  using assms by (auto simp: add_config_def shadowed_def split: config_attr.splits)

text \<open>
  Claim C2, amended. For every registered setting whose name the ordinary lookup does
  not find (the name is not \<open>config\<close>, was not assigned before it was registered,
  and is no attribute of the class) and that has no explicit override, no value in
  the environment, no YAML value and no default, the read raises the
  configuration-not-set error, whose message names the setting. Registering a setting
  without a default does not raise, whatever the name; the error comes when such a
  setting is read.
\<close>

theorem C2_not_set_at_read_time:
  "(config c = Registry r \<and> r key = Some s \<and> \<not> shadowed c key
      \<and> cfg_value s = None \<and> env_value environ s = None
      \<and> cfg_yaml s = None \<and> cfg_default s = None
     \<longrightarrow> read environ c key = Inl (ConfigurationError (not_set_message key))
         \<and> sublist key (not_set_message key))
   \<and> (config c = Registry r
     \<longrightarrow> (\<exists>c'. add_config c key type_fn None env_var = Inr c'
           \<and> registered_names c' = insert key (registered_names c)
           \<and> (\<not> shadowed c key
                \<and> (case env_var of None \<Rightarrow> None | Some name \<Rightarrow> environ name) = None
              \<longrightarrow> read environ c' key = Inl (ConfigurationError (not_set_message key)))))"
proof (intro conjI impI)
  assume a: "config c = Registry r \<and> r key = Some s \<and> \<not> shadowed c key
      \<and> cfg_value s = None \<and> env_value environ s = None
      \<and> cfg_yaml s = None \<and> cfg_default s = None"
  then have c: "config c = Registry r" and s: "r key = Some s" and u: "\<not> shadowed c key"
    by simp_all
  from getattr_Registry [OF c s unshadowed_not_config [OF u], of environ] a
  have "getattr environ c key = Inl (ConfigurationError (not_set_message key))"
    by simp
  then show "read environ c key = Inl (ConfigurationError (not_set_message key))"
    by (simp add: read_unshadowed [OF u] as_attribute_def)
  show "sublist key (not_set_message key)"
    by (rule not_set_message_names_key)
next
  assume c: "config c = Registry r"
  let ?s = "\<lparr>cfg_type = type_fn, cfg_env_var = env_var, cfg_default = None,
        cfg_yaml = None, cfg_value = None\<rparr>"
  let ?c = "c\<lparr>config := Registry (r(key \<mapsto> ?s))\<rparr>"
  have 1: "add_config c key type_fn None env_var = Inr ?c"
    by (rule add_config_Registry [OF c])
  have 2: "registered_names ?c = insert key (registered_names c)"
    using c by (simp add: registered_names_def)
  have 3: "\<not> shadowed c key
         \<and> (case env_var of None \<Rightarrow> None | Some name \<Rightarrow> environ name) = None
       \<longrightarrow> read environ ?c key = Inl (ConfigurationError (not_set_message key))"
  proof
    assume h: "\<not> shadowed c key
         \<and> (case env_var of None \<Rightarrow> None | Some name \<Rightarrow> environ name) = None"
    have cfg: "config ?c = Registry (r(key \<mapsto> ?s))" by simp
    have rk: "(r(key \<mapsto> ?s)) key = Some ?s" by simp
    from h have u: "\<not> shadowed ?c key"
      using add_config_shadowed [OF 1, of key] by simp
    from getattr_Registry [OF cfg rk unshadowed_not_config [OF u], of environ] h
    have "getattr environ ?c key = Inl (ConfigurationError (not_set_message key))"
      by (simp add: env_value_def)
    then show "read environ ?c key = Inl (ConfigurationError (not_set_message key))"
      by (simp add: read_unshadowed [OF u] as_attribute_def)
  qed
  from 1 2 3 show "\<exists>c'. add_config c key type_fn None env_var = Inr c'
           \<and> registered_names c' = insert key (registered_names c)
           \<and> (\<not> shadowed c key
                \<and> (case env_var of None \<Rightarrow> None | Some name \<Rightarrow> environ name) = None
              \<longrightarrow> read environ c' key = Inl (ConfigurationError (not_set_message key)))"
    by blast
qed

theorem C2_not_set_at_read_time_witness:
  "add_config init ''data_path'' keep None (Some ''FUEL_DATA_PATH'') \<noteq> Inl TypeError
   \<and> add_config init ''data_path'' keep None None = Inr path_object
   \<and> \<not> shadowed path_object ''data_path''
   \<and> read Map.empty path_object ''data_path''
       = Inl (ConfigurationError ''Configuration not set and no default provided: data_path.'')"
proof -
  have c: "config path_object = Registry [''data_path'' \<mapsto> bare_setting]"
    by (simp add: path_object_def)
  have i: "config init = Registry Map.empty" by (simp add: init_def)
  have u: "\<not> shadowed path_object ''data_path''"
    by (simp add: shadowed_def path_object_def lookup_names)
  from C2_not_set_at_read_time [of init Map.empty "''data_path''" bare_setting Map.empty
      keep "Some ''FUEL_DATA_PATH''"] i
  have 1: "add_config init ''data_path'' keep None (Some ''FUEL_DATA_PATH'') \<noteq> Inl TypeError"
    by auto
  have 2: "add_config init ''data_path'' keep None None = Inr path_object"
    by (simp add: add_config_def init_def path_object_def bare_setting_def)
  from C2_not_set_at_read_time [of path_object "[''data_path'' \<mapsto> bare_setting]"
      "''data_path''" bare_setting Map.empty keep None] c u
  have "read Map.empty path_object ''data_path''
       = Inl (ConfigurationError (not_set_message ''data_path''))"
    by (simp add: bare_setting_def env_value_def)
  then have 3: "read Map.empty path_object ''data_path''
       = Inl (ConfigurationError ''Configuration not set and no default provided: data_path.'')"
    by (simp add: not_set_message_def)
  from 1 2 u 3 show ?thesis by blast
qed

theorem C2_shadowed_name_counterexample:
  "add_config init ''config'' keep None None = Inr reserved_bare_object
   \<and> setting_of reserved_bare_object ''config'' = Some bare_setting
   \<and> spec_first_match (spec_sources Map.empty bare_setting) = None
   \<and> read Map.empty reserved_bare_object ''config'' = Inr (Settings [''config'' \<mapsto> bare_setting])
   \<and> add_config init ''add_config'' keep None None = Inr method_bare_object
   \<and> setting_of method_bare_object ''add_config'' = Some bare_setting
   \<and> read Map.empty method_bare_object ''add_config'' = Inr (Provided ''add_config'')
   \<and> setattr init ''batch_size'' (PInt 5) = Inr assigned_object
   \<and> add_config assigned_object ''batch_size'' keep None None = Inr assigned_bare_object
   \<and> setting_of assigned_bare_object ''batch_size'' = Some bare_setting
   \<and> read Map.empty assigned_bare_object ''batch_size'' = Inr (Value (PInt 5))"
  by (simp add: add_config_def init_def reserved_bare_object_def method_bare_object_def
      assigned_object_def assigned_bare_object_def bare_setting_def setting_of_def
      spec_sources_def env_value_def read_def setattr_def object_setattr_def lookup_names)

text \<open>
  Claim C3, amended. For every registered setting whose name the ordinary lookup does
  not find (the name is not \<open>config\<close>, was not assigned before it was registered,
  and is no attribute of the class) and every value \<open>v\<close>, assigning \<open>v\<close> succeeds,
  stores \<open>v\<close> as the setting's explicit override and changes nothing else of it, and
  a read that follows returns the setting's \<open>type\<close> applied to \<open>v\<close>, whatever the
  environment, the YAML value and the default are.
\<close>

theorem C3_set_then_get:
  assumes "config c = Registry r" and "r key = Some s" and "\<not> shadowed c key"
  shows "\<exists>c'. setattr c key v = Inr c'
     \<and> setting_of c' key = Some (s\<lparr>cfg_value := Some v\<rparr>)
     \<and> read environ c' key = as_attribute (cfg_type s v)"
proof -
  note k = unshadowed_not_config [OF assms(3)]
  let ?c = "c\<lparr>config := Registry (r(key \<mapsto> s\<lparr>cfg_value := Some v\<rparr>))\<rparr>"
  have 1: "setattr c key v = Inr ?c"
    by (rule setattr_registered [OF assms(1) assms(2) k])
  have 2: "setting_of ?c key = Some (s\<lparr>cfg_value := Some v\<rparr>)"
    by (simp add: setting_of_def)
  have u: "\<not> shadowed ?c key"
    using assms(3) by (simp add: shadowed_def)
  have cfg: "config ?c = Registry (r(key \<mapsto> s\<lparr>cfg_value := Some v\<rparr>))" by simp
  have rk: "(r(key \<mapsto> s\<lparr>cfg_value := Some v\<rparr>)) key = Some (s\<lparr>cfg_value := Some v\<rparr>)"
    by simp
  have "getattr environ ?c key = cfg_type s v"
    using getattr_Registry [OF cfg rk k, of environ] by simp
  then have 3: "read environ ?c key = as_attribute (cfg_type s v)"
    by (simp add: read_unshadowed [OF u])
  from 1 2 3 show ?thesis by blast
qed

theorem C3_set_then_get_witness:
  "config flag_object = Registry [''fuel_uses_theano'' \<mapsto> flag_setting]
   \<and> \<not> shadowed flag_object ''fuel_uses_theano''
   \<and> env_value flag_environ flag_setting = Some ''0''
   \<and> cfg_yaml flag_setting = Some (PStr ''true'')
   \<and> (\<exists>c'. setattr flag_object ''fuel_uses_theano'' (PStr ''1'') = Inr c'
        \<and> read flag_environ c' ''fuel_uses_theano'' = Inr (Value (PBool True)))"
proof -
  have c: "config flag_object = Registry [''fuel_uses_theano'' \<mapsto> flag_setting]"
    by (simp add: flag_object_def)
  have r: "[''fuel_uses_theano'' \<mapsto> flag_setting] ''fuel_uses_theano'' = Some flag_setting"
    by simp
  have k: "\<not> shadowed flag_object ''fuel_uses_theano''"
    by (simp add: shadowed_def flag_object_def lookup_names)
  have e: "env_value flag_environ flag_setting = Some ''0''"
    by (simp add: env_value_def flag_setting_def flag_environ_def)
  have y: "cfg_yaml flag_setting = Some (PStr ''true'')" by (simp add: flag_setting_def)
  have t: "as_attribute (cfg_type flag_setting (PStr ''1'')) = Inr (Value (PBool True))"
    by (simp add: flag_setting_def human_bool_def as_attribute_def)
  from C3_set_then_get [OF c r k, of "PStr ''1''" flag_environ] t
  have "\<exists>c'. setattr flag_object ''fuel_uses_theano'' (PStr ''1'') = Inr c'
        \<and> read flag_environ c' ''fuel_uses_theano'' = Inr (Value (PBool True))"
    by auto
  with c k e y show ?thesis by blast
qed

theorem C3_shadowed_name_counterexample:
  "setting_of reserved_flag_object ''config'' = Some flag_setting
   \<and> as_attribute (cfg_type flag_setting (PStr ''1'')) = Inr (Value (PBool True))
   \<and> setattr reserved_flag_object ''config'' (PStr ''1'')
       = Inr (reserved_flag_object\<lparr>config := Plain (PStr ''1'')\<rparr>)
   \<and> read Map.empty (reserved_flag_object\<lparr>config := Plain (PStr ''1'')\<rparr>) ''config''
       = Inr (Value (PStr ''1''))
   \<and> setting_of method_object ''load_yaml'' = Some seed_setting
   \<and> setattr method_object ''load_yaml'' (PInt 7)
       = Inr (method_object\<lparr>config :=
                Registry [''load_yaml'' \<mapsto> seed_setting\<lparr>cfg_value := Some (PInt 7)\<rparr>]\<rparr>)
   \<and> read Map.empty (method_object\<lparr>config :=
                Registry [''load_yaml'' \<mapsto> seed_setting\<lparr>cfg_value := Some (PInt 7)\<rparr>]\<rparr>) ''load_yaml''
       = Inr (Provided ''load_yaml'')
   \<and> setting_of assigned_seed_object ''batch_size'' = Some seed_setting
   \<and> as_attribute (cfg_type seed_setting (PInt 9)) = Inr (Value (PInt 9))
   \<and> setattr assigned_seed_object ''batch_size'' (PInt 9)
       = Inr (assigned_seed_object\<lparr>config :=
                Registry [''batch_size'' \<mapsto> seed_setting\<lparr>cfg_value := Some (PInt 9)\<rparr>]\<rparr>)
   \<and> read Map.empty (assigned_seed_object\<lparr>config :=
                Registry [''batch_size'' \<mapsto> seed_setting\<lparr>cfg_value := Some (PInt 9)\<rparr>]\<rparr>) ''batch_size''
       = Inr (Value (PInt 5))"
  by (simp add: reserved_flag_object_def method_object_def assigned_seed_object_def
      flag_setting_def seed_setting_def bare_setting_def setting_of_def keep_def human_bool_def
      as_attribute_def setattr_def object_setattr_def read_def lookup_names)













subsection \<open>Loading the YAML file\<close>

lemma load_items_append:
  "load_items c (xs @ ys) =
     (case load_items c xs of (c', None) \<Rightarrow> load_items c' ys | (c', Some e) \<Rightarrow> (c', Some e))"
proof (induction xs arbitrary: c)
  case Nil
  then show ?case by simp
next
  case (Cons kv xs)
  obtain key v where kv: "kv = (key, v)" by (cases kv)
  show ?case
    by (simp add: kv Cons.IH split: sum.splits bool.splits)
qed

lemma load_items_registered:
  assumes "config c = Registry r" and "\<forall>k \<in> fst ` set items. r k \<noteq> None"
  shows "\<exists>r'. load_items c items = (c\<lparr>config := Registry r'\<rparr>, None)
     \<and> (\<forall>k. r' k = (case r k of None \<Rightarrow> None
                    | Some s \<Rightarrow> Some (case map_of (rev items) k of
                                       None \<Rightarrow> s | Some v \<Rightarrow> s\<lparr>cfg_yaml := Some v\<rparr>)))"
  using assms
proof (induction items arbitrary: c r)
  case Nil
  have "load_items c [] = (c\<lparr>config := Registry r\<rparr>, None)"
    using Nil.prems(1) by simp
  moreover have "\<forall>k. r k = (case r k of None \<Rightarrow> None
                    | Some s \<Rightarrow> Some (case map_of (rev []) k of
                                       None \<Rightarrow> s | Some v \<Rightarrow> s\<lparr>cfg_yaml := Some v\<rparr>))"
    by (simp split: option.splits)
  ultimately show ?case by blast
next
  case (Cons kv rest)
  obtain key v where kv: "kv = (key, v)" by (cases kv)
  from Cons.prems(2) obtain s0 where s0: "r key = Some s0" by (auto simp: kv)
  let ?r1 = "r(key \<mapsto> s0\<lparr>cfg_yaml := Some v\<rparr>)"
  let ?c1 = "c\<lparr>config := Registry ?r1\<rparr>"
  have step: "load_items c (kv # rest) = load_items ?c1 rest"
    using Cons.prems(1) s0 by (simp add: kv)
  have c1: "config ?c1 = Registry ?r1" by simp
  have reg: "\<forall>k \<in> fst ` set rest. ?r1 k \<noteq> None"
    using Cons.prems(2) by auto
  from Cons.IH [OF c1 reg] obtain r' where
    l: "load_items ?c1 rest = (?c1\<lparr>config := Registry r'\<rparr>, None)"
    and p: "\<forall>k. r' k = (case ?r1 k of None \<Rightarrow> None
                    | Some s \<Rightarrow> Some (case map_of (rev rest) k of
                                       None \<Rightarrow> s | Some v \<Rightarrow> s\<lparr>cfg_yaml := Some v\<rparr>))"
    by blast
  have 1: "load_items c (kv # rest) = (c\<lparr>config := Registry r'\<rparr>, None)"
    using step l by simp
  have 2: "\<forall>k. r' k = (case r k of None \<Rightarrow> None
                    | Some s \<Rightarrow> Some (case map_of (rev (kv # rest)) k of
                                       None \<Rightarrow> s | Some v \<Rightarrow> s\<lparr>cfg_yaml := Some v\<rparr>))"
  proof
    fix k
    show "r' k = (case r k of None \<Rightarrow> None
                    | Some s \<Rightarrow> Some (case map_of (rev (kv # rest)) k of
                                       None \<Rightarrow> s | Some v \<Rightarrow> s\<lparr>cfg_yaml := Some v\<rparr>))"
      using p [rule_format, of k] s0
      by (cases "k = key") (auto simp: kv map_add_def split: option.splits)
  qed
  from 1 2 show ?case by blast
qed

lemma load_yaml_mapping:
  assumes "files (yaml_file environ fuelrc) = Some (YMapping items)"
  shows "load_yaml environ fuelrc files c = load_items c items"
  using assms by (simp add: load_yaml_def)

lemma yaml_of_Registry:
  "yaml_of (c\<lparr>config := Registry r\<rparr>) k = (case r k of None \<Rightarrow> None | Some s \<Rightarrow> cfg_yaml s)"
  by (simp add: yaml_of_def setting_of_def)

text \<open>
  Claim C5, amended. The overlay load overwrites. When every key of the file is
  registered the load succeeds, and afterwards every setting the file names holds
  the file's raw value as its YAML-sourced value, whatever it held before; a setting
  the file does not name keeps its YAML-sourced value, and nothing else of any
  setting changes.
\<close>

theorem C5_load_overwrites:
  assumes "config c = Registry r"
    and "files (yaml_file environ fuelrc) = Some (YMapping items)"
    and "\<forall>k \<in> fst ` set items. r k \<noteq> None"
  shows "\<exists>r'. load_yaml environ fuelrc files c = (c\<lparr>config := Registry r'\<rparr>, None)
     \<and> (\<forall>k. r' k = (case r k of None \<Rightarrow> None
                    | Some s \<Rightarrow> Some (case map_of (rev items) k of
                                       None \<Rightarrow> s | Some v \<Rightarrow> s\<lparr>cfg_yaml := Some v\<rparr>)))
     \<and> (\<forall>k v. distinct (map fst items) \<and> (k, v) \<in> set items
           \<longrightarrow> yaml_of (c\<lparr>config := Registry r'\<rparr>) k = Some v)
     \<and> (\<forall>k. k \<notin> fst ` set items
           \<longrightarrow> yaml_of (c\<lparr>config := Registry r'\<rparr>) k = yaml_of c k)"
proof -
  from load_items_registered [OF assms(1) assms(3)] obtain r' where
    l: "load_items c items = (c\<lparr>config := Registry r'\<rparr>, None)"
    and p: "\<forall>k. r' k = (case r k of None \<Rightarrow> None
                    | Some s \<Rightarrow> Some (case map_of (rev items) k of
                                       None \<Rightarrow> s | Some v \<Rightarrow> s\<lparr>cfg_yaml := Some v\<rparr>))"
    by blast
  have 1: "load_yaml environ fuelrc files c = (c\<lparr>config := Registry r'\<rparr>, None)"
    using load_yaml_mapping [of files environ fuelrc items c] assms(2) l by simp
  have 3: "\<forall>k v. distinct (map fst items) \<and> (k, v) \<in> set items
           \<longrightarrow> yaml_of (c\<lparr>config := Registry r'\<rparr>) k = Some v"
  proof (intro allI impI)
    fix k v assume a: "distinct (map fst items) \<and> (k, v) \<in> set items"
    then have "distinct (map fst (rev items))" and "(k, v) \<in> set (rev items)"
      by (simp_all add: rev_map [symmetric])
    then have m: "map_of (rev items) k = Some v" by (rule map_of_is_SomeI)
    from a assms(3) obtain s where s: "r k = Some s" by force
    show "yaml_of (c\<lparr>config := Registry r'\<rparr>) k = Some v"
      using p [rule_format, of k] s m by (simp add: yaml_of_Registry)
  qed
  have 4: "\<forall>k. k \<notin> fst ` set items
           \<longrightarrow> yaml_of (c\<lparr>config := Registry r'\<rparr>) k = yaml_of c k"
  proof (intro allI impI)
    fix k assume "k \<notin> fst ` set items"
    then have "k \<notin> fst ` set (rev items)" by simp
    then have m: "map_of (rev items) k = None" by (simp add: map_of_eq_None_iff del: set_rev)
    show "yaml_of (c\<lparr>config := Registry r'\<rparr>) k = yaml_of c k"
      using p [rule_format, of k] m assms(1)
      by (simp add: yaml_of_Registry yaml_of_def setting_of_def split: option.splits)
  qed
  from 1 p 3 4 show ?thesis by blast
qed

theorem C5_load_overwrites_witness:
  "config seed_object = Registry [''default_seed'' \<mapsto> seed_setting]
   \<and> seed_files 5 (yaml_file Map.empty fuelrc_path) = Some (YMapping [(''default_seed'', PInt 5)])
   \<and> (\<exists>r'. load_yaml Map.empty fuelrc_path (seed_files 5) seed_object
              = (seed_object\<lparr>config := Registry r'\<rparr>, None)
          \<and> yaml_of (seed_object\<lparr>config := Registry r'\<rparr>) ''default_seed'' = Some (PInt 5)
          \<and> yaml_of (seed_object\<lparr>config := Registry r'\<rparr>) ''floatX'' = None)"
proof -
  have c: "config seed_object = Registry [''default_seed'' \<mapsto> seed_setting]"
    by (simp add: seed_object_def)
  have f: "seed_files 5 (yaml_file Map.empty fuelrc_path) = Some (YMapping [(''default_seed'', PInt 5)])"
    by (simp add: seed_files_def yaml_file_def)
  have a: "\<forall>k \<in> fst ` set [(''default_seed'', PInt 5)]. [''default_seed'' \<mapsto> seed_setting] k \<noteq> None"
    by simp
  have d: "distinct (map fst [(''default_seed'', PInt 5)])
      \<and> (''default_seed'', PInt 5) \<in> set [(''default_seed'', PInt 5)]"
    by simp
  have n: "''floatX'' \<notin> fst ` set [(''default_seed'', PInt 5)]" by simp
  have y: "yaml_of seed_object ''floatX'' = None"
    by (simp add: yaml_of_def setting_of_def seed_object_def)
  from C5_load_overwrites [of seed_object "[''default_seed'' \<mapsto> seed_setting]" "seed_files 5"
      Map.empty fuelrc_path "[(''default_seed'', PInt 5)]", OF c f a] obtain r' where
    1: "load_yaml Map.empty fuelrc_path (seed_files 5) seed_object
              = (seed_object\<lparr>config := Registry r'\<rparr>, None)"
    and 2: "\<forall>k v. distinct (map fst [(''default_seed'', PInt 5)])
              \<and> (k, v) \<in> set [(''default_seed'', PInt 5)]
           \<longrightarrow> yaml_of (seed_object\<lparr>config := Registry r'\<rparr>) k = Some v"
    and 3: "\<forall>k. k \<notin> fst ` set [(''default_seed'', PInt 5)]
           \<longrightarrow> yaml_of (seed_object\<lparr>config := Registry r'\<rparr>) k = yaml_of seed_object k"
    by blast
  from 2 d have 4: "yaml_of (seed_object\<lparr>config := Registry r'\<rparr>) ''default_seed'' = Some (PInt 5)"
    by blast
  from 3 n y have 5: "yaml_of (seed_object\<lparr>config := Registry r'\<rparr>) ''floatX'' = None"
    by simp
  from c f 1 4 5 show ?thesis by blast
qed

theorem C5_second_load_counterexample:
  "yaml_of (fst (load_yaml Map.empty fuelrc_path (seed_files 5) seed_object)) ''default_seed''
     = Some (PInt 5)
   \<and> snd (load_yaml Map.empty fuelrc_path (seed_files 6)
            (fst (load_yaml Map.empty fuelrc_path (seed_files 5) seed_object))) = None
   \<and> yaml_of (fst (load_yaml Map.empty fuelrc_path (seed_files 6)
            (fst (load_yaml Map.empty fuelrc_path (seed_files 5) seed_object)))) ''default_seed''
     = Some (PInt 6)"
  by (simp add: load_yaml_def yaml_file_def seed_files_def seed_object_def yaml_of_def setting_of_def)

lemma first_unregistered_split:
  assumes "\<exists>k \<in> fst ` set items. r k = None"
  shows "\<exists>v post. items = applied_items r items @ (first_unregistered r items, v) # post"
    and "r (first_unregistered r items) = None"
    and "\<forall>k \<in> fst ` set (applied_items r items). r k \<noteq> None"
proof -
  let ?P = "\<lambda>kv. r (fst kv) \<noteq> None"
  from assms have ne: "dropWhile ?P items \<noteq> []"
    by (auto simp: dropWhile_eq_Nil_conv)
  then obtain kv post where d: "dropWhile ?P items = kv # post"
    by (cases "dropWhile ?P items") auto
  have "items = takeWhile ?P items @ dropWhile ?P items" by simp
  with d have "items = applied_items r items @ (first_unregistered r items, snd kv) # post"
    by (simp add: applied_items_def first_unregistered_def)
  then show "\<exists>v post. items = applied_items r items @ (first_unregistered r items, v) # post"
    by blast
  from hd_dropWhile [OF ne] show "r (first_unregistered r items) = None"
    by (simp add: first_unregistered_def)
  show "\<forall>k \<in> fst ` set (applied_items r items). r k \<noteq> None"
    by (auto simp: applied_items_def dest: set_takeWhileD)
qed

text \<open>
  Claim C4, amended. When the mapping of the overlay file has a key with no
  registration, the load raises the unrecognized-setting error for the first such
  key in the order of the file. The settings named before that key have by then
  received their YAML values and keep them; no later item is applied. The object is
  untouched only when the unregistered key comes first.
\<close>

theorem C4_unrecognized_key:
  assumes "config c = Registry r"
    and "files (yaml_file environ fuelrc) = Some (YMapping items)"
    and "\<exists>k \<in> fst ` set items. r k = None"
  shows "r (first_unregistered r items) = None
     \<and> first_unregistered r items \<in> fst ` set items
     \<and> (\<exists>r'. load_yaml environ fuelrc files c
              = (c\<lparr>config := Registry r'\<rparr>,
                 Some (ValueError (unrecognized_message (first_unregistered r items))))
          \<and> (\<forall>k. r' k = (case r k of None \<Rightarrow> None
                    | Some s \<Rightarrow> Some (case map_of (rev (applied_items r items)) k of
                                       None \<Rightarrow> s | Some v \<Rightarrow> s\<lparr>cfg_yaml := Some v\<rparr>))))
     \<and> (applied_items r items = []
          \<longrightarrow> load_yaml environ fuelrc files c
              = (c, Some (ValueError (unrecognized_message (first_unregistered r items)))))"
proof -
  let ?pre = "applied_items r items" and ?bad = "first_unregistered r items"
  from first_unregistered_split [OF assms(3)] obtain v post where
    items: "items = ?pre @ (?bad, v) # post"
    and bad: "r ?bad = None"
    and pre: "\<forall>k \<in> fst ` set ?pre. r k \<noteq> None"
    by blast
  from items have mem: "?bad \<in> fst ` set items"
    by (metis in_set_conv_decomp fst_conv image_eqI)
  from load_items_registered [OF assms(1) pre] obtain r' where
    l: "load_items c ?pre = (c\<lparr>config := Registry r'\<rparr>, None)"
    and p: "\<forall>k. r' k = (case r k of None \<Rightarrow> None
                    | Some s \<Rightarrow> Some (case map_of (rev ?pre) k of
                                       None \<Rightarrow> s | Some v \<Rightarrow> s\<lparr>cfg_yaml := Some v\<rparr>))"
    by blast
  from p [rule_format, of ?bad] bad have r'bad: "r' ?bad = None" by simp
  have "load_items c (?pre @ (?bad, v) # post)
      = (c\<lparr>config := Registry r'\<rparr>, Some (ValueError (unrecognized_message ?bad)))"
    by (simp add: load_items_append l r'bad)
  with items have "load_items c items
      = (c\<lparr>config := Registry r'\<rparr>, Some (ValueError (unrecognized_message ?bad)))"
    by simp
  then have 1: "load_yaml environ fuelrc files c
      = (c\<lparr>config := Registry r'\<rparr>, Some (ValueError (unrecognized_message ?bad)))"
    using load_yaml_mapping [of files environ fuelrc items c] assms(2) by simp
  have 2: "?pre = [] \<longrightarrow> load_yaml environ fuelrc files c
              = (c, Some (ValueError (unrecognized_message ?bad)))"
  proof
    assume e: "?pre = []"
    have "r' = r"
    proof
      fix k show "r' k = r k"
        using p [rule_format, of k] e by (simp split: option.splits)
    qed
    with 1 assms(1) show "load_yaml environ fuelrc files c
              = (c, Some (ValueError (unrecognized_message ?bad)))"
      by (metis configuration.surjective configuration.update_convs(1))
  qed
  from bad mem 1 p 2 show ?thesis by blast
qed

theorem C4_unrecognized_key_witness:
  "config seed_object = Registry [''default_seed'' \<mapsto> seed_setting]
   \<and> typo_files (yaml_file Map.empty fuelrc_path)
       = Some (YMapping [(''default_seed'', PInt 5), (''data_pth'', PStr ''/data'')])
   \<and> first_unregistered [''default_seed'' \<mapsto> seed_setting]
        [(''default_seed'', PInt 5), (''data_pth'', PStr ''/data'')] = ''data_pth''
   \<and> snd (load_yaml Map.empty fuelrc_path typo_files seed_object)
       = Some (ValueError ''Unrecognized config in YAML: data_pth'')"
proof -
  let ?r = "[''default_seed'' \<mapsto> seed_setting]"
  let ?items = "[(''default_seed'', PInt 5), (''data_pth'', PStr ''/data'')]"
  have c: "config seed_object = Registry ?r"
    by (simp add: seed_object_def)
  have f: "typo_files (yaml_file Map.empty fuelrc_path) = Some (YMapping ?items)"
    by (simp add: typo_files_def yaml_file_def)
  have a: "\<exists>k \<in> fst ` set ?items. ?r k = None"
    by simp
  have b: "first_unregistered ?r ?items = ''data_pth''"
    by (simp add: first_unregistered_def)
  from C4_unrecognized_key [of seed_object ?r typo_files Map.empty fuelrc_path ?items, OF c f a]
  obtain r' where
    "load_yaml Map.empty fuelrc_path typo_files seed_object
        = (seed_object\<lparr>config := Registry r'\<rparr>,
           Some (ValueError (unrecognized_message (first_unregistered ?r ?items))))"
    by blast
  then have "snd (load_yaml Map.empty fuelrc_path typo_files seed_object)
       = Some (ValueError ''Unrecognized config in YAML: data_pth'')"
    by (simp add: b unrecognized_message_def)
  with c f b show ?thesis by blast
qed

theorem C4_partial_load_counterexample:
  "setting_of seed_object ''data_pth'' = None
   \<and> yaml_of seed_object ''default_seed'' = None
   \<and> snd (load_yaml Map.empty fuelrc_path typo_files seed_object)
       = Some (ValueError (unrecognized_message ''data_pth''))
   \<and> yaml_of (fst (load_yaml Map.empty fuelrc_path typo_files seed_object)) ''default_seed''
       = Some (PInt 5)"
  by (simp add: load_yaml_def yaml_file_def typo_files_def seed_object_def seed_setting_def bare_setting_def
      yaml_of_def setting_of_def)

subsection \<open>The module's own configuration\<close>

lemma load_items_frame:
  assumes "config c = Registry r"
  shows "\<exists>r'. fst (load_items c items) = c\<lparr>config := Registry r'\<rparr>
     \<and> (\<forall>k. r k = None \<longrightarrow> r' k = None)
     \<and> (\<forall>k s. r k = Some s \<longrightarrow> (\<exists>y. r' k = Some (s\<lparr>cfg_yaml := y\<rparr>)))"
  using assms
proof (induction items arbitrary: c r)
  case Nil
  have "fst (load_items c []) = c\<lparr>config := Registry r\<rparr>" using Nil by simp
  moreover have "\<forall>k s. r k = Some s \<longrightarrow> (\<exists>y. r k = Some (s\<lparr>cfg_yaml := y\<rparr>))"
    by (metis setting.surjective setting.update_convs(4))
  ultimately show ?case by blast
next
  case (Cons kv rest)
  obtain key v where kv: "kv = (key, v)" by (cases kv)
  show ?case
  proof (cases "r key")
    case None
    have "fst (load_items c (kv # rest)) = c\<lparr>config := Registry r\<rparr>"
      using Cons.prems None by (simp add: kv)
    moreover have "\<forall>k s. r k = Some s \<longrightarrow> (\<exists>y. r k = Some (s\<lparr>cfg_yaml := y\<rparr>))"
      by (metis setting.surjective setting.update_convs(4))
    ultimately show ?thesis by blast
  next
    case (Some s0)
    let ?r1 = "r(key \<mapsto> s0\<lparr>cfg_yaml := Some v\<rparr>)"
    let ?c1 = "c\<lparr>config := Registry ?r1\<rparr>"
    have step: "load_items c (kv # rest) = load_items ?c1 rest"
      using Cons.prems Some by (simp add: kv)
    have c1: "config ?c1 = Registry ?r1" by simp
    from Cons.IH [OF c1] obtain r' where
      l: "fst (load_items ?c1 rest) = ?c1\<lparr>config := Registry r'\<rparr>"
      and n: "\<forall>k. ?r1 k = None \<longrightarrow> r' k = None"
      and p: "\<forall>k s. ?r1 k = Some s \<longrightarrow> (\<exists>y. r' k = Some (s\<lparr>cfg_yaml := y\<rparr>))"
      by blast
    have 1: "fst (load_items c (kv # rest)) = c\<lparr>config := Registry r'\<rparr>"
      using step l by simp
    have 2: "\<forall>k. r k = None \<longrightarrow> r' k = None"
      using n Some by (metis fun_upd_apply option.distinct(1))
    have 3: "\<forall>k s. r k = Some s \<longrightarrow> (\<exists>y. r' k = Some (s\<lparr>cfg_yaml := y\<rparr>))"
    proof (intro allI impI)
      fix k s assume ks: "r k = Some s"
      show "\<exists>y. r' k = Some (s\<lparr>cfg_yaml := y\<rparr>)"
      proof (cases "k = key")
        case True
        with ks Some have "s = s0" by simp
        with True p [rule_format, of key "s0\<lparr>cfg_yaml := Some v\<rparr>"] show ?thesis
          by auto
      next
        case False
        with ks p [rule_format, of k s] show ?thesis by simp
      qed
    qed
    from 1 2 3 show ?thesis by blast
  qed
qed

lemma load_yaml_frame:
  assumes "config c = Registry r"
  shows "\<exists>r'. fst (load_yaml environ fuelrc files c) = c\<lparr>config := Registry r'\<rparr>
     \<and> (\<forall>k. r k = None \<longrightarrow> r' k = None)
     \<and> (\<forall>k s. r k = Some s \<longrightarrow> (\<exists>y. r' k = Some (s\<lparr>cfg_yaml := y\<rparr>)))"
proof -
  have same: "\<exists>r'. c = c\<lparr>config := Registry r'\<rparr>
     \<and> (\<forall>k. r k = None \<longrightarrow> r' k = None)
     \<and> (\<forall>k s. r k = Some s \<longrightarrow> (\<exists>y. r' k = Some (s\<lparr>cfg_yaml := y\<rparr>)))"
  proof -
    have "c = c\<lparr>config := Registry r\<rparr>" using assms by simp
    moreover have "\<forall>k s. r k = Some s \<longrightarrow> (\<exists>y. r k = Some (s\<lparr>cfg_yaml := y\<rparr>))"
      by (metis setting.surjective setting.update_convs(4))
    ultimately show ?thesis by blast
  qed
  show ?thesis
  proof (cases "files (yaml_file environ fuelrc)")
    case None
    then show ?thesis using same by (simp add: load_yaml_def)
  next
    case (Some doc)
    show ?thesis
    proof (cases doc)
      case (YMapping items)
      with Some load_items_frame [OF assms, of items] show ?thesis
        by (simp add: load_yaml_def)
    next
      case (YOther v)
      with Some same show ?thesis by (simp add: load_yaml_def)
    qed
  qed
qed

lemma registered_settings:
  "\<exists>c0 r0. registered w = Inr c0 \<and> config c0 = Registry r0 \<and> attrs c0 = Map.empty
     \<and> r0 ''floatX'' = Some \<lparr>cfg_type = builtin_str w, cfg_env_var = Some ''FUEL_FLOATX'',
          cfg_default = Some (PStr ''float64''), cfg_yaml = None, cfg_value = None\<rparr>"
  by (simp add: registered_def seq_def add_config_def init_def)

lemma loaded_floatX:
  assumes "loaded w = Inr c1"
  shows "\<exists>r1 y. config c1 = Registry r1 \<and> attrs c1 = Map.empty
     \<and> r1 ''floatX'' = Some \<lparr>cfg_type = builtin_str w, cfg_env_var = Some ''FUEL_FLOATX'',
          cfg_default = Some (PStr ''float64''), cfg_yaml = y, cfg_value = None\<rparr>
     \<and> (os_files w (yaml_file (os_environ w) (home_fuelrc w)) = None \<longrightarrow> y = None)"
proof -
  let ?s0 = "\<lparr>cfg_type = builtin_str w, cfg_env_var = Some ''FUEL_FLOATX'',
          cfg_default = Some (PStr ''float64''), cfg_yaml = None, cfg_value = None\<rparr>"
  from registered_settings [of w] obtain c0 r0 where
    reg: "registered w = Inr c0" and c0: "config c0 = Registry r0"
    and a0: "attrs c0 = Map.empty" and f0: "r0 ''floatX'' = Some ?s0"
    by blast
  let ?l = "load_yaml (os_environ w) (home_fuelrc w) (os_files w) c0"
  from assms reg have c1: "c1 = fst ?l"
    by (auto simp: loaded_def seq_def split: prod.splits option.splits)
  show ?thesis
  proof (cases "os_files w (yaml_file (os_environ w) (home_fuelrc w))")
    case None
    then have "?l = (c0, None)" by (simp add: load_yaml_def)
    with c1 have "c1 = c0" by simp
    with c0 a0 f0 show ?thesis by blast
  next
    case (Some doc)
    from load_yaml_frame [OF c0, of "os_environ w" "home_fuelrc w" "os_files w"] c1
    obtain r' where e: "c1 = c0\<lparr>config := Registry r'\<rparr>"
      and p: "\<forall>k s. r0 k = Some s \<longrightarrow> (\<exists>y. r' k = Some (s\<lparr>cfg_yaml := y\<rparr>))"
      by auto
    from p f0 obtain y where "r' ''floatX'' = Some (?s0\<lparr>cfg_yaml := y\<rparr>)" by blast
    then have "r' ''floatX'' = Some \<lparr>cfg_type = builtin_str w, cfg_env_var = Some ''FUEL_FLOATX'',
          cfg_default = Some (PStr ''float64''), cfg_yaml = y, cfg_value = None\<rparr>"
      by simp
    moreover from e have "config c1 = Registry r'" by simp
    moreover from e a0 have "attrs c1 = Map.empty" by simp
    ultimately show ?thesis using Some by auto
  qed
qed

text \<open>
  After the overlay load the instance dictionary holds nothing but \<open>config\<close>, so
  the reads of \<open>fuel_uses_theano\<close> and \<open>floatX\<close> are calls of \<open>__getattr__\<close>.
\<close>

lemma loaded_reads:
  assumes "loaded w = Inr c1"
  shows "read environ c1 ''fuel_uses_theano'' = as_attribute (getattr environ c1 ''fuel_uses_theano'')"
    and "read environ c1 ''floatX'' = as_attribute (getattr environ c1 ''floatX'')"
proof -
  from loaded_floatX [OF assms] have a: "attrs c1 = Map.empty" by (elim exE conjE)
  have "\<not> shadowed c1 ''fuel_uses_theano''" and "\<not> shadowed c1 ''floatX''"
    by (simp_all add: shadowed_def a lookup_names)
  then show "read environ c1 ''fuel_uses_theano'' = as_attribute (getattr environ c1 ''fuel_uses_theano'')"
    and "read environ c1 ''floatX'' = as_attribute (getattr environ c1 ''floatX'')"
    by (simp_all add: read_unshadowed)
qed

text \<open>
  Claim C8. When \<open>fuel_uses_theano\<close> resolves to a true value after the overlay load
  (and \<open>theano\<close> provides its \<open>floatX\<close>), the import succeeds and changes one thing:
  the \<open>default\<close> entry of the setting \<open>floatX\<close> becomes the provider's value. With no
  \<open>FUEL_FLOATX\<close> in the environment and no YAML value, reading \<open>floatX\<close> then gives
  the provider's value, where before the substitution it gave the coercion of the
  registered literal \<open>float64\<close>. A value in \<open>FUEL_FLOATX\<close>, a YAML value and a
  later explicit assignment each still win over the new default: the read gives the
  coercion of that value, which is what it gave before the substitution.
\<close>

theorem C8_deferred_default:
  assumes "loaded w = Inr c1"
    and "getattr (os_environ w) c1 ''fuel_uses_theano'' = Inr flag"
    and "truthy flag"
    and "theano_floatX w = Some fx"
    and "builtin_str w (PStr fx) = Inr (PStr fx)"
  shows "\<exists>s1 c2. setting_of c1 ''floatX'' = Some s1
     \<and> cfg_default s1 = Some (PStr ''float64'') \<and> cfg_value s1 = None
     \<and> (os_files w (yaml_file (os_environ w) (home_fuelrc w)) = None \<longrightarrow> cfg_yaml s1 = None)
     \<and> module_init w = Inr c2
     \<and> setting_of c2 ''floatX'' = Some (s1\<lparr>cfg_default := Some (PStr fx)\<rparr>)
     \<and> (\<forall>k. k \<noteq> ''floatX'' \<longrightarrow> setting_of c2 k = setting_of c1 k)
     \<and> attrs c2 = attrs c1
     \<and> (os_environ w ''FUEL_FLOATX'' = None \<and> cfg_yaml s1 = None
          \<longrightarrow> getattr (os_environ w) c2 ''floatX'' = Inr (PStr fx)
            \<and> getattr (os_environ w) c1 ''floatX'' = builtin_str w (PStr ''float64''))
     \<and> (\<forall>e. os_environ w ''FUEL_FLOATX'' = Some e
          \<longrightarrow> getattr (os_environ w) c2 ''floatX'' = builtin_str w (PStr e)
            \<and> getattr (os_environ w) c1 ''floatX'' = builtin_str w (PStr e))
     \<and> (\<forall>y. os_environ w ''FUEL_FLOATX'' = None \<and> cfg_yaml s1 = Some y
          \<longrightarrow> getattr (os_environ w) c2 ''floatX'' = builtin_str w y
            \<and> getattr (os_environ w) c1 ''floatX'' = builtin_str w y)
     \<and> (\<forall>v environ. \<exists>c3. setattr c2 ''floatX'' v = Inr c3
            \<and> getattr environ c3 ''floatX'' = builtin_str w v)"
proof -
  from loaded_floatX [OF assms(1)] obtain r1 y where
    c1: "config c1 = Registry r1"
    and f1: "r1 ''floatX'' = Some \<lparr>cfg_type = builtin_str w, cfg_env_var = Some ''FUEL_FLOATX'',
          cfg_default = Some (PStr ''float64''), cfg_yaml = y, cfg_value = None\<rparr>"
    and nofile: "os_files w (yaml_file (os_environ w) (home_fuelrc w)) = None \<longrightarrow> y = None"
    by (elim exE conjE)
  let ?s1 = "\<lparr>cfg_type = builtin_str w, cfg_env_var = Some ''FUEL_FLOATX'',
          cfg_default = Some (PStr ''float64''), cfg_yaml = y, cfg_value = None\<rparr>"
  let ?s2 = "?s1\<lparr>cfg_default := Some (PStr fx)\<rparr>"
  let ?r2 = "r1(''floatX'' \<mapsto> ?s2)"
  let ?c2 = "c1\<lparr>config := Registry ?r2\<rparr>"
  let ?env = "os_environ w"
  have k: "''floatX'' \<noteq> ''config''" by simp
  have 1: "setting_of c1 ''floatX'' = Some ?s1"
    using c1 f1 by (simp add: setting_of_def)
  have 2: "module_init w = Inr ?c2"
    using assms c1 f1 by (simp add: module_init_def seq_def)
  have c2: "config ?c2 = Registry ?r2" by simp
  have f2: "?r2 ''floatX'' = Some ?s2" by simp
  have 3: "setting_of ?c2 ''floatX'' = Some ?s2"
    by (simp add: setting_of_def)
  have 4: "\<forall>k. k \<noteq> ''floatX'' \<longrightarrow> setting_of ?c2 k = setting_of c1 k"
    using c1 by (simp add: setting_of_def)
  have 5: "attrs ?c2 = attrs c1" by simp
  have g1: "getattr environ c1 ''floatX'' =
      (case env_value environ ?s1 of Some e \<Rightarrow> builtin_str w (PStr e)
       | None \<Rightarrow> (case y of Some v \<Rightarrow> builtin_str w v
                   | None \<Rightarrow> builtin_str w (PStr ''float64'')))" for environ
    using getattr_Registry [OF c1 f1 k, of environ] by (simp split: option.splits)
  have g2: "getattr environ ?c2 ''floatX'' =
      (case env_value environ ?s1 of Some e \<Rightarrow> builtin_str w (PStr e)
       | None \<Rightarrow> (case y of Some v \<Rightarrow> builtin_str w v
                   | None \<Rightarrow> builtin_str w (PStr fx)))" for environ
    using getattr_Registry [OF c2 f2 k, of environ] by (simp add: env_value_def split: option.splits)
  have ev: "env_value environ ?s1 = environ ''FUEL_FLOATX''" for environ
    by (simp add: env_value_def)
  have 6: "?env ''FUEL_FLOATX'' = None \<and> cfg_yaml ?s1 = None
          \<longrightarrow> getattr ?env ?c2 ''floatX'' = Inr (PStr fx)
            \<and> getattr ?env c1 ''floatX'' = builtin_str w (PStr ''float64'')"
    using assms(5) g1 [of ?env] g2 [of ?env] ev [of ?env] by auto
  have 7: "\<forall>e. ?env ''FUEL_FLOATX'' = Some e
          \<longrightarrow> getattr ?env ?c2 ''floatX'' = builtin_str w (PStr e)
            \<and> getattr ?env c1 ''floatX'' = builtin_str w (PStr e)"
    using g1 [of ?env] g2 [of ?env] ev [of ?env] by auto
  have 8: "\<forall>y'. ?env ''FUEL_FLOATX'' = None \<and> cfg_yaml ?s1 = Some y'
          \<longrightarrow> getattr ?env ?c2 ''floatX'' = builtin_str w y'
            \<and> getattr ?env c1 ''floatX'' = builtin_str w y'"
    using g1 [of ?env] g2 [of ?env] ev [of ?env] by auto
  have 9: "\<forall>v environ. \<exists>c3. setattr ?c2 ''floatX'' v = Inr c3
            \<and> getattr environ c3 ''floatX'' = builtin_str w v"
  proof (intro allI)
    fix v environ
    let ?c3 = "?c2\<lparr>config := Registry (?r2(''floatX'' \<mapsto> ?s2\<lparr>cfg_value := Some v\<rparr>))\<rparr>"
    have a: "setattr ?c2 ''floatX'' v = Inr ?c3"
      by (rule setattr_registered [OF c2 f2 k])
    have "config ?c3 = Registry (?r2(''floatX'' \<mapsto> ?s2\<lparr>cfg_value := Some v\<rparr>))" by simp
    moreover have "(?r2(''floatX'' \<mapsto> ?s2\<lparr>cfg_value := Some v\<rparr>)) ''floatX''
        = Some (?s2\<lparr>cfg_value := Some v\<rparr>)" by simp
    ultimately have "getattr environ ?c3 ''floatX'' = builtin_str w v"
      using getattr_Registry [of ?c3 _ "''floatX''" "?s2\<lparr>cfg_value := Some v\<rparr>" environ] k
      by simp
    with a show "\<exists>c3. setattr ?c2 ''floatX'' v = Inr c3
            \<and> getattr environ c3 ''floatX'' = builtin_str w v"
      by blast
  qed
  have d: "cfg_default ?s1 = Some (PStr ''float64'') \<and> cfg_value ?s1 = None" by simp
  have nf: "os_files w (yaml_file (os_environ w) (home_fuelrc w)) = None \<longrightarrow> cfg_yaml ?s1 = None"
    using nofile by simp
  show ?thesis
    apply (rule exI [of _ ?s1])
    apply (rule exI [of _ ?c2])
    using 1 d nf 2 3 4 5 6 7 8 9 apply (intro conjI)
    apply (simp_all only: simp_thms)
    done
qed

lemma loaded_example_world:
  "\<exists>c1. loaded example_world = Inr c1
     \<and> getattr (os_environ example_world) c1 ''fuel_uses_theano'' = Inr (PBool True)"
  by (simp add: loaded_def registered_def seq_def add_config_def init_def load_yaml_def yaml_file_def
      example_world_def getattr_def human_bool_def)

lemma loaded_float16_world:
  "\<exists>c1. loaded float16_world = Inr c1
     \<and> getattr (os_environ float16_world) c1 ''fuel_uses_theano'' = Inr (PBool True)
     \<and> yaml_of c1 ''floatX'' = Some (PStr ''float16'')"
  by (simp add: loaded_def registered_def seq_def add_config_def init_def load_yaml_def yaml_file_def
      float16_world_def example_world_def getattr_def human_bool_def yaml_of_def setting_of_def)

theorem C8_deferred_default_witness:
  "(\<exists>c1. loaded example_world = Inr c1
       \<and> getattr (os_environ example_world) c1 ''fuel_uses_theano'' = Inr (PBool True))
   \<and> truthy (PBool True)
   \<and> theano_floatX example_world = Some ''float32''
   \<and> builtin_str example_world (PStr ''float32'') = Inr (PStr ''float32'')
   \<and> (\<exists>c2. module_init example_world = Inr c2
         \<and> getattr (os_environ example_world) c2 ''floatX'' = Inr (PStr ''float32''))
   \<and> (\<exists>c2. module_init float16_world = Inr c2
         \<and> getattr (os_environ float16_world) c2 ''floatX'' = Inr (PStr ''float16''))"
proof -
  have t: "truthy (PBool True)" by simp
  have x: "theano_floatX example_world = Some ''float32''"
    by (simp add: example_world_def)
  have b: "builtin_str example_world (PStr ''float32'') = Inr (PStr ''float32'')"
    by (simp add: example_world_def example_str_def)
  have nf: "os_files example_world (yaml_file (os_environ example_world) (home_fuelrc example_world)) = None"
    by (simp add: example_world_def)
  have ne: "os_environ example_world ''FUEL_FLOATX'' = None"
    by (simp add: example_world_def)
  from loaded_example_world obtain c1 where
    l: "loaded example_world = Inr c1"
    and g: "getattr (os_environ example_world) c1 ''fuel_uses_theano'' = Inr (PBool True)"
    by blast
  from C8_deferred_default [OF l g t x b] nf ne
  have 1: "\<exists>c2. module_init example_world = Inr c2
         \<and> getattr (os_environ example_world) c2 ''floatX'' = Inr (PStr ''float32'')"
    by blast
  have x': "theano_floatX float16_world = Some ''float32''"
    by (simp add: float16_world_def example_world_def)
  have b': "builtin_str float16_world (PStr ''float32'') = Inr (PStr ''float32'')"
    by (simp add: float16_world_def example_world_def example_str_def)
  have b16: "builtin_str float16_world (PStr ''float16'') = Inr (PStr ''float16'')"
    by (simp add: float16_world_def example_world_def example_str_def)
  have ne': "os_environ float16_world ''FUEL_FLOATX'' = None"
    by (simp add: float16_world_def example_world_def)
  from loaded_float16_world obtain c1' where
    l': "loaded float16_world = Inr c1'"
    and g': "getattr (os_environ float16_world) c1' ''fuel_uses_theano'' = Inr (PBool True)"
    and y': "yaml_of c1' ''floatX'' = Some (PStr ''float16'')"
    by blast
  from C8_deferred_default [OF l' g' t x' b'] obtain s1 c2 where
    s1: "setting_of c1' ''floatX'' = Some s1"
    and m: "module_init float16_world = Inr c2"
    and w: "\<forall>y. os_environ float16_world ''FUEL_FLOATX'' = None \<and> cfg_yaml s1 = Some y
          \<longrightarrow> getattr (os_environ float16_world) c2 ''floatX'' = builtin_str float16_world y
            \<and> getattr (os_environ float16_world) c1' ''floatX'' = builtin_str float16_world y"
    by blast
  from s1 y' have "cfg_yaml s1 = Some (PStr ''float16'')" by (simp add: yaml_of_def)
  with w ne' b16 have "getattr (os_environ float16_world) c2 ''floatX'' = Inr (PStr ''float16'')"
    by simp
  with m have 2: "\<exists>c2. module_init float16_world = Inr c2
         \<and> getattr (os_environ float16_world) c2 ''floatX'' = Inr (PStr ''float16'')"
    by blast
  from l g have 0: "\<exists>c1. loaded example_world = Inr c1
       \<and> getattr (os_environ example_world) c1 ''fuel_uses_theano'' = Inr (PBool True)"
    by blast
  from 0 t x b 1 2 show ?thesis by blast
qed

end
